theory Spec2Isabelle
  imports Main
begin

section \<open>brief-cases: sum datatypes for JavaScript\<close>

text \<open>
  The library is one function (\<^verbatim>\<open>index.js\<close>), called \<^verbatim>\<open>createSumType\<close> in its README:
  \<^verbatim>\<open>
  module.exports = (...variants) => {
    function SumType() {}
    function Variant(name, args) { this._name = name; this._args = args; }
    Variant.prototype = Object.create(SumType.prototype);
    Variant.prototype.cases = function(opts) {
      if (opts[this._name]) return opts[this._name](...this._args);
      else if (opts._) return opts._();
      else throw new Error(`cases: missing case for "${this._name}"`);
    };
    variants.forEach(name => { SumType[name] = (...args) => new Variant(name, args); });
    return SumType;
  };
  \<close>
  The embedding follows it line by line. What JavaScript does implicitly is written out:
  property lookup along the prototype chain, truthiness, the call of a value that may
  not be a function, the allocation of objects, and the attributes of the properties a
  function object is born with.
\<close>

subsection \<open>Values\<close>

type_synonym key = string
type_synonym addr = nat

text \<open>
  The function objects that occur: functions written by the caller (handlers, shared
  methods), and the three kinds the library creates. A library function carries the
  identity of the \<^verbatim>\<open>createSumType\<close> call that made it; a variant constructor also
  carries the index of the \<^verbatim>\<open>forEach\<close> iteration that evaluated its arrow expression
  and the \<^verbatim>\<open>name\<close> it closes over.
\<close>

datatype fn =
    User nat
  | SumTypeFn addr
  | CasesFn addr
  | CtorFn addr nat key

text \<open>
  Numbers are integers here (so \<^verbatim>\<open>NaN\<close>, the other falsy number, has no
  representative). \<open>Ref\<close> is a reference to an object made by \<^verbatim>\<open>new Variant\<close>,
  \<open>Proto\<close> a reference to the \<^verbatim>\<open>SumType.prototype\<close> object of a definition, \<open>Obj\<close> any
  other object, known by its identity only.
\<close>

datatype jsval =
    Undefined
  | Null
  | Bool bool
  | Num int
  | Str string
  | Arr "jsval list"
  | Fn fn
  | Ref addr
  | Proto addr
  | Obj nat

fun truthy :: "jsval \<Rightarrow> bool" where
  "truthy Undefined = False"
| "truthy Null = False"
| "truthy (Bool b) = b"
| "truthy (Num n) = (n \<noteq> 0)"
| "truthy (Str s) = (s \<noteq> [])"
| "truthy _ = True"

subsection \<open>Objects and property lookup\<close>

text \<open>
  An object is read through its prototype chain: its own properties first, then those
  of each prototype in turn. All properties are data properties. \<open>get_prop\<close> is the
  read \<^verbatim>\<open>o[k]\<close>, which yields \<^verbatim>\<open>undefined\<close> when no object of the chain has the key;
  \<open>has_prop\<close> is \<^verbatim>\<open>k in o\<close>.
\<close>

type_synonym props = "key \<rightharpoonup> jsval"
type_synonym object = "props list"

primrec get_prop :: "object \<Rightarrow> key \<Rightarrow> jsval" where
  "get_prop [] k = Undefined"
| "get_prop (m # ms) k = (case m k of Some v \<Rightarrow> v | None \<Rightarrow> get_prop ms k)"

primrec has_prop :: "object \<Rightarrow> key \<Rightarrow> bool" where
  "has_prop [] k = False"
| "has_prop (m # ms) k = (case m k of Some v \<Rightarrow> True | None \<Rightarrow> has_prop ms k)"

subsection \<open>Calls\<close>

text \<open>
  A call either throws or returns a value, and leaves a world behind; \<open>None\<close> stands
  for a call that does not return. What a function does when called is given by a
  behaviour table, a parameter of the model: the receiver \<^verbatim>\<open>this\<close>, the arguments and
  the world go in. Calling a value that is not a function throws a \<^verbatim>\<open>TypeError\<close>.
\<close>

datatype error =
    Error string
  | TypeError
  | Thrown jsval

type_synonym 'w result = "((error + jsval) \<times> 'w) option"
type_synonym 'w behaviour = "fn \<Rightarrow> object \<Rightarrow> jsval list \<Rightarrow> 'w \<Rightarrow> 'w result"

definition invoke :: "'w behaviour \<Rightarrow> jsval \<Rightarrow> object \<Rightarrow> jsval list \<Rightarrow> 'w \<Rightarrow> 'w result" where
  "invoke call f this args w =
     (case f of Fn g \<Rightarrow> call g this args w | _ \<Rightarrow> Some (Inl TypeError, w))"

subsection \<open>Variant values and \<^verbatim>\<open>cases\<close>\<close>

text \<open>
  \<^verbatim>\<open>new Variant(name, args)\<close> makes an object with the own properties \<^verbatim>\<open>_name\<close> and
  \<^verbatim>\<open>_args\<close>, whose prototype is the \<^verbatim>\<open>Variant.prototype\<close> of the enclosing
  \<^verbatim>\<open>createSumType\<close> call (\<open>vdef\<close>).
\<close>

record variant =
  vname :: key
  vargs :: "jsval list"
  vdef :: addr

definition missing_case :: "key \<Rightarrow> string" where
  "missing_case name = ''cases: missing case for '' @ [CHR 0x22] @ name @ [CHR 0x22]"

definition cases :: "'w behaviour \<Rightarrow> variant \<Rightarrow> object \<Rightarrow> 'w \<Rightarrow> 'w result" where
  "cases call this opts w =
     (if truthy (get_prop opts (vname this))
        then invoke call (get_prop opts (vname this)) opts (vargs this) w
      else if truthy (get_prop opts ''_'')
        then invoke call (get_prop opts ''_'') opts [] w
      else Some (Inl (Error (missing_case (vname this))), w))"

subsection \<open>The world: the objects the library allocates\<close>

text \<open>
  Each call of \<^verbatim>\<open>createSumType\<close> allocates a function \<^verbatim>\<open>SumType\<close> with its
  \<^verbatim>\<open>SumType.prototype\<close> object (the extension surface), and a \<^verbatim>\<open>Variant.prototype\<close>
  object inheriting from it that holds \<^verbatim>\<open>cases\<close>. Each constructor call allocates one
  \<^verbatim>\<open>Variant\<close> object. The world keeps the surfaces and the \<^verbatim>\<open>Variant\<close> objects in
  the order of their allocation, so that an address is an index and a new object gets
  the address \<open>length\<close>, which no older object has. \<open>objproto\<close> is the host's
  \<^verbatim>\<open>Object.prototype\<close>, at the end of every chain.
\<close>

record world =
  objproto :: props
  surfaces :: "props list"
  variants :: "variant list"

definition surface :: "world \<Rightarrow> addr \<Rightarrow> props" where
  "surface w d = (if d < length (surfaces w) then surfaces w ! d else Map.empty)"

text \<open>
  The chain of a \<^verbatim>\<open>Variant\<close> object: the object itself, \<^verbatim>\<open>Variant.prototype\<close>
  (\<^verbatim>\<open>Object.create(SumType.prototype)\<close> with \<^verbatim>\<open>cases\<close> added), \<^verbatim>\<open>SumType.prototype\<close>,
  \<^verbatim>\<open>Object.prototype\<close>. \<open>member w x k\<close> is the read \<^verbatim>\<open>x[k]\<close>.
\<close>

definition own_props :: "variant \<Rightarrow> props" where
  "own_props x = [''_name'' \<mapsto> Str (vname x), ''_args'' \<mapsto> Arr (vargs x)]"

definition variant_prototype :: "addr \<Rightarrow> props" where
  "variant_prototype d = [''cases'' \<mapsto> Fn (CasesFn d)]"

definition chain :: "world \<Rightarrow> variant \<Rightarrow> object" where
  "chain w x = [own_props x, variant_prototype (vdef x), surface w (vdef x), objproto w]"

definition member :: "world \<Rightarrow> variant \<Rightarrow> key \<Rightarrow> jsval" where
  "member w x k = get_prop (chain w x) k"

subsection \<open>\<^verbatim>\<open>createSumType\<close>\<close>

text \<open>
  \<^verbatim>\<open>function SumType() {}\<close> is a function object. It is born with the own properties
  \<^verbatim>\<open>length\<close> and \<^verbatim>\<open>name\<close>, which are not writable, and \<^verbatim>\<open>prototype\<close>, which is;
  in Node a function of non-strict code also has \<^verbatim>\<open>arguments\<close> and \<^verbatim>\<open>caller\<close>, both
  \<^verbatim>\<open>null\<close> and not writable. The prototype object is born with \<^verbatim>\<open>constructor\<close>.
  \<^verbatim>\<open>index.js\<close> is not in strict mode, so an assignment to a property that is not
  writable does nothing, silently (in strict mode it would throw a \<^verbatim>\<open>TypeError\<close>).
  A definition is the function \<^verbatim>\<open>SumType\<close> as \<^verbatim>\<open>createSumType\<close> returns it: its
  identity, which is also the address of its prototype object, and its own properties.
\<close>

record sum_type =
  ident :: addr
  own :: props

definition function_props :: "addr \<Rightarrow> props" where
  "function_props d =
     [''length'' \<mapsto> Num 0, ''name'' \<mapsto> Str ''SumType'',
      ''arguments'' \<mapsto> Null, ''caller'' \<mapsto> Null, ''prototype'' \<mapsto> Proto d]"

definition prototype_props :: "addr \<Rightarrow> props" where
  "prototype_props d = [''constructor'' \<mapsto> Fn (SumTypeFn d)]"

definition readonly :: "key \<Rightarrow> bool" where
  "readonly k = (k = ''length'' \<or> k = ''name'' \<or> k = ''arguments'' \<or> k = ''caller'')"

definition assign :: "props \<Rightarrow> key \<Rightarrow> jsval \<Rightarrow> props" where
  "assign S k v = (if readonly k then S else S(k \<mapsto> v))"

text \<open>
  \<^verbatim>\<open>variants.forEach(name => { SumType[name] = (...args) => new Variant(name, args); })\<close>:
  iteration \<open>i\<close> makes a new closure over its \<^verbatim>\<open>name\<close> and assigns it.
\<close>

fun forEach :: "addr \<Rightarrow> nat \<Rightarrow> key list \<Rightarrow> props \<Rightarrow> props" where
  "forEach d i [] S = S"
| "forEach d i (name # rest) S = forEach d (Suc i) rest (assign S name (Fn (CtorFn d i name)))"

definition createSumType :: "key list \<Rightarrow> world \<Rightarrow> sum_type \<times> world" where
  "createSumType vs w =
     (let d = length (surfaces w)
      in (\<lparr>ident = d, own = forEach d 0 vs (function_props d)\<rparr>,
          w\<lparr>surfaces := surfaces w @ [prototype_props d]\<rparr>))"

text \<open>
  The body of a constructor, \<^verbatim>\<open>new Variant(name, args)\<close>, and the call
  \<^verbatim>\<open>T[v](...args)\<close> of the own property \<open>v\<close> of a definition. The own properties of
  a definition are the ones it was born with, none of them a function, and the
  constructors; the call of a value that is not a function is a \<^verbatim>\<open>TypeError\<close>. (A key
  that is not an own property of \<^verbatim>\<open>SumType\<close> would be looked up in
  \<^verbatim>\<open>Function.prototype\<close>, which is not modelled: the call is a \<^verbatim>\<open>TypeError\<close> here,
  as for \<^verbatim>\<open>undefined\<close>.)
\<close>

definition new_Variant :: "addr \<Rightarrow> key \<Rightarrow> jsval list \<Rightarrow> world \<Rightarrow> addr \<times> world" where
  "new_Variant d name args w =
     (length (variants w),
      w\<lparr>variants := variants w @ [\<lparr>vname = name, vargs = args, vdef = d\<rparr>]\<rparr>)"

definition construct :: "sum_type \<Rightarrow> key \<Rightarrow> jsval list \<Rightarrow> world \<Rightarrow> (error + addr) \<times> world" where
  "construct T v args w =
     (case own T v of
        Some (Fn (CtorFn d i name)) \<Rightarrow>
          (let (x, w') = new_Variant d name args w in (Inr x, w'))
      | _ \<Rightarrow> (Inl TypeError, w))"

text \<open>
  Attaching shared behaviour is the caller's assignment \<^verbatim>\<open>S[n] = f\<close> to the extension
  surface \<open>S\<close> of a definition (in the tests: \<^verbatim>\<open>Tree.prototype.mapLeaf = function ...\<close>).
\<close>

definition attach :: "addr \<Rightarrow> key \<Rightarrow> jsval \<Rightarrow> world \<Rightarrow> world" where
  "attach d n f w =
     (if d < length (surfaces w)
      then w\<lparr>surfaces := (surfaces w)[d := (surfaces w ! d)(n \<mapsto> f)]\<rparr>
      else w)"

subsection \<open>Auxiliary notions and example inputs\<close>


text \<open>
  The inputs of the examples below. An object literal inherits from
  \<^verbatim>\<open>Object.prototype\<close>, of which four members are listed. \<open>record_calls\<close> is a
  behaviour table in which every function appends its own identity and its arguments
  to a log (the world) and returns the number of its arguments; in \<open>returns_undefined\<close>
  every function returns \<^verbatim>\<open>undefined\<close> and changes nothing. The values are those of
  the tests: \<^verbatim>\<open>Tree.Leaf(3)\<close> and \<^verbatim>\<open>Tree.Inner('root', Tree.Leaf(0), Tree.Leaf(4))\<close>,
  with \<^verbatim>\<open>Tree = createSumType('Leaf', 'Inner')\<close> the first definition made in an empty
  world; \<open>Shape\<close> is a second definition, which shares the variant name \<^verbatim>\<open>Leaf\<close>.
  \<open>underscore\<close> and \<open>to_string\<close> are values of variants named \<^verbatim>\<open>_\<close> and
  \<^verbatim>\<open>toString\<close>.
\<close>

definition object_prototype :: props where
  "object_prototype =
     [''constructor'' \<mapsto> Fn (User 100), ''toString'' \<mapsto> Fn (User 101),
      ''valueOf'' \<mapsto> Fn (User 102), ''hasOwnProperty'' \<mapsto> Fn (User 103)]"

definition literal :: "props \<Rightarrow> object" where
  "literal ps = [ps, object_prototype]"

definition record_calls :: "(fn \<times> jsval list) list behaviour" where
  "record_calls g this args log = Some (Inr (Num (int (length args))), log @ [(g, args)])"

definition returns_undefined :: "unit behaviour" where
  "returns_undefined g this args w = Some (Inr Undefined, w)"

definition leaf3 :: variant where
  "leaf3 = \<lparr>vname = ''Leaf'', vargs = [Num 3], vdef = 0\<rparr>"

definition inner :: variant where
  "inner = \<lparr>vname = ''Inner'', vargs = [Str ''root'', Ref 0, Ref 1], vdef = 0\<rparr>"

definition underscore :: variant where
  "underscore = \<lparr>vname = ''_'', vargs = [Num 1, Num 2], vdef = 0\<rparr>"


definition empty_world :: world where
  "empty_world = \<lparr>objproto = object_prototype, surfaces = [], variants = []\<rparr>"

definition Tree :: sum_type where
  "Tree = fst (createSumType [''Leaf'', ''Inner''] empty_world)"

definition tree_world :: world where
  "tree_world = snd (createSumType [''Leaf'', ''Inner''] empty_world)"

definition Shape :: sum_type where
  "Shape = fst (createSumType [''Leaf'', ''Circle''] tree_world)"

definition shape_world :: world where
  "shape_world = snd (createSumType [''Leaf'', ''Circle''] tree_world)"

section \<open>Dispatch\<close>

subsection \<open>The three branches of \<^verbatim>\<open>cases\<close>\<close>

lemma invoke_Fn: "invoke call (Fn g) this args w = call g this args w"
  by (simp add: invoke_def)

lemma invoke_not_function:
  "(\<And>g. f \<noteq> Fn g) \<Longrightarrow> invoke call f this args w = Some (Inl TypeError, w)"
  by (cases f) (auto simp: invoke_def)






lemma cases_own:
  "truthy (get_prop opts (vname x)) \<Longrightarrow>
     cases call x opts w = invoke call (get_prop opts (vname x)) opts (vargs x) w"
  by (simp add: cases_def)


text \<open>The message of the error names the tag: different tags give different messages.\<close>

lemma missing_case_inj: "missing_case a = missing_case b \<Longrightarrow> a = b"
  by (simp add: missing_case_def)


subsection \<open>The handler of the value's own tag\<close>

text \<open>
  C1. For a value \<open>x\<close> with tag \<open>vname x\<close> and payload \<open>vargs x\<close>, and a handler map whose
  entry for the tag is a function \<open>h\<close>, \<^verbatim>\<open>x.cases(opts)\<close> is the call of \<open>h\<close> on the
  payload, in order, started in the world \<^verbatim>\<open>cases\<close> was called in: the outcome and the
  world left behind are those of that one call, whatever the other entries and the
  fallback are, and whatever the functions do.
\<close>

theorem cases_calls_own_handler:
  assumes "get_prop opts (vname x) = Fn h"
  shows "cases call x opts w = call h opts (vargs x) w"
  using assms by (simp add: cases_own invoke_Fn)

text \<open>
  With handlers for \<^verbatim>\<open>Leaf\<close>, \<^verbatim>\<open>Inner\<close> and \<^verbatim>\<open>_\<close> that record their calls, the log after
  \<^verbatim>\<open>cases\<close> on an \<^verbatim>\<open>Inner\<close> value holds one call, that of the \<^verbatim>\<open>Inner\<close> handler with the
  three arguments.
\<close>

theorem cases_calls_own_handler_witness:
  "get_prop (literal [''Leaf'' \<mapsto> Fn (User 0), ''Inner'' \<mapsto> Fn (User 1), ''_'' \<mapsto> Fn (User 2)])
       (vname inner) = Fn (User 1)
   \<and> cases record_calls inner
       (literal [''Leaf'' \<mapsto> Fn (User 0), ''Inner'' \<mapsto> Fn (User 1), ''_'' \<mapsto> Fn (User 2)]) []
       = Some (Inr (Num 3), [(User 1, [Str ''root'', Ref 0, Ref 1])])"
proof -
  let ?opts = "literal [''Leaf'' \<mapsto> Fn (User 0), ''Inner'' \<mapsto> Fn (User 1), ''_'' \<mapsto> Fn (User 2)]"
  have h: "get_prop ?opts (vname inner) = Fn (User 1)"
    by (simp add: literal_def inner_def)
  show ?thesis
    using h cases_calls_own_handler [OF h, of record_calls "[]"]
    by (simp add: record_calls_def inner_def)
qed

subsection \<open>The fallback\<close>




subsection \<open>The missing case\<close>




subsection \<open>Falsy entries\<close>



subsection \<open>A variant named \<^verbatim>\<open>_\<close>\<close>

text \<open>
  C10, as the code has it. For a value of a variant named \<^verbatim>\<open>_\<close>, a \<^verbatim>\<open>_\<close> entry that
  is truthy is taken in the first branch, as the entry of the value's own tag: it is
  invoked with the payload, not with no arguments (a \<^verbatim>\<open>TypeError\<close> if it is not a
  function), and \<^verbatim>\<open>cases\<close> does not get to the missing-case error.
\<close>

theorem underscore_variant:
  assumes "vname x = ''_''" and "truthy (get_prop opts ''_'')"
  shows "cases call x opts w =
           (case get_prop opts ''_'' of
              Fn h \<Rightarrow> call h opts (vargs x) w
            | _ \<Rightarrow> Some (Inl TypeError, w))"
  using assms by (simp add: cases_own invoke_def)

theorem underscore_variant_witness:
  "vname underscore = ''_''
   \<and> truthy (get_prop (literal [''_'' \<mapsto> Fn (User 2)]) ''_'')
   \<and> cases record_calls underscore (literal [''_'' \<mapsto> Fn (User 2)]) []
       = Some (Inr (Num 2), [(User 2, [Num 1, Num 2])])"
proof -
  have n: "vname underscore = ''_''"
    by (simp add: underscore_def)
  have t: "truthy (get_prop (literal [''_'' \<mapsto> Fn (User 2)]) ''_'')"
    by (simp add: literal_def)
  show ?thesis
    using n t underscore_variant [OF n t, of record_calls "[]"]
    by (simp add: literal_def record_calls_def underscore_def)
qed

text \<open>
  With "a \<^verbatim>\<open>_\<close> entry is present" read as the key being in the map, the claim fails: the
  entry \<^verbatim>\<open>false\<close> is present, and the missing-case error is thrown.
\<close>

theorem underscore_variant_counterexample:
  \<open>vname underscore = ''_''
   \<and> has_prop (literal [''_'' \<mapsto> Bool False]) ''_''
   \<and> cases returns_undefined underscore (literal [''_'' \<mapsto> Bool False]) ()
       = Some (Inl (Error ''cases: missing case for "_"''), ())\<close>
  by (simp add: cases_def literal_def underscore_def object_prototype_def missing_case_def)

section \<open>Definitions and constructors\<close>

subsection \<open>What \<^verbatim>\<open>createSumType\<close> binds\<close>

lemma forEach_append:
  "forEach d i (xs @ ys) S = forEach d (i + length xs) ys (forEach d i xs S)"
  by (induction xs arbitrary: i S) simp_all

lemma forEach_other: "k \<notin> set vs \<Longrightarrow> forEach d i vs S k = S k"
  by (induction vs arbitrary: i S) (auto simp: assign_def)

lemma forEach_readonly: "readonly k \<Longrightarrow> forEach d i vs S k = S k"
  by (induction vs arbitrary: i S) (auto simp: assign_def)

lemma forEach_last:
  assumes "\<not> readonly k" and "k \<notin> set ys"
  shows "forEach d i (xs @ k # ys) S k = Some (Fn (CtorFn d (i + length xs) k))"
  using assms by (simp add: forEach_append forEach_other assign_def)

lemma function_props_no_function: "function_props d k \<noteq> Some (Fn c)"
  by (simp add: function_props_def)

lemma createSumType_result:
  assumes "createSumType vs w = (T, w')"
  shows "ident T = length (surfaces w)"
    and "own T = forEach (ident T) 0 vs (function_props (ident T))"
    and "surfaces w' = surfaces w @ [prototype_props (ident T)]"
    and "variants w' = variants w"
    and "objproto w' = objproto w"
  using assms by (auto simp: createSumType_def Let_def)

text \<open>
  A function that is an own property of a definition is a variant constructor: the
  closure made in the last iteration whose name is the key.
\<close>

lemma bound_function:
  assumes "createSumType vs w = (T, w')" and "own T v = Some (Fn c)"
  shows "\<exists>xs ys. vs = xs @ v # ys \<and> v \<notin> set ys \<and> c = CtorFn (ident T) (length xs) v"
proof -
  have own: "own T v = forEach (ident T) 0 vs (function_props (ident T)) v"
    using createSumType_result(2) [OF assms(1)] by simp
  have "v \<in> set vs"
  proof (rule ccontr)
    assume "v \<notin> set vs"
    then have "own T v = function_props (ident T) v"
      using own by (simp add: forEach_other)
    with assms(2) show False
      by (simp add: function_props_no_function)
  qed
  then obtain xs ys where split: "vs = xs @ v # ys" "v \<notin> set ys"
    by (meson split_list_last)
  have writable: "\<not> readonly v"
  proof
    assume "readonly v"
    then have "own T v = function_props (ident T) v"
      using own by (simp add: forEach_readonly)
    with assms(2) show False
      by (simp add: function_props_no_function)
  qed
  have "own T v = Some (Fn (CtorFn (ident T) (length xs) v))"
    unfolding own split(1) using forEach_last [OF writable split(2), of "ident T" 0 xs] by simp
  with assms(2) have "c = CtorFn (ident T) (length xs) v"
    by simp
  with split show ?thesis
    by blast
qed

lemma bound_constructor:
  assumes "createSumType vs w = (T, w')" and "own T v = Some (Fn c)"
  shows "\<exists>i. c = CtorFn (ident T) i v"
  using bound_function [OF assms] by blast

text \<open>Every name given to \<^verbatim>\<open>createSumType\<close> is bound, the read-only ones apart.\<close>

lemma writable_name_bound:
  assumes "createSumType vs w = (T, w')" and "v \<in> set vs" and "\<not> readonly v"
  shows "\<exists>i. own T v = Some (Fn (CtorFn (ident T) i v))"
proof -
  obtain xs ys where split: "vs = xs @ v # ys" "v \<notin> set ys"
    using assms(2) by (meson split_list_last)
  have "own T v = forEach (ident T) 0 (xs @ v # ys) (function_props (ident T)) v"
    using createSumType_result(2) [OF assms(1)] split(1) by simp
  then have "own T v = Some (Fn (CtorFn (ident T) (length xs) v))"
    using forEach_last [OF assms(3) split(2), of "ident T" 0 xs] by simp
  then show ?thesis ..
qed

lemma readonly_name_not_bound:
  assumes "createSumType vs w = (T, w')" and "readonly v"
  shows "own T v = function_props (ident T) v"
  using createSumType_result(2) [OF assms(1)] assms(2) by (simp add: forEach_readonly)

lemma construct_bound:
  assumes "own T v = Some (Fn (CtorFn d i n))"
  shows "construct T v args w =
           (Inr (length (variants w)),
            w\<lparr>variants := variants w @ [\<lparr>vname = n, vargs = args, vdef = d\<rparr>]\<rparr>)"
  using assms by (simp add: construct_def new_Variant_def)

subsection \<open>Duplicate names\<close>



subsection \<open>Constructor calls\<close>

text \<open>
  C7. When \<open>v\<close> is bound on a definition \<open>T\<close> (the own property \<open>v\<close> of \<open>T\<close> is a
  function), the call \<^verbatim>\<open>T.v(...args)\<close> succeeds for every argument list and in every
  world. It returns a new object, at an address no object of the world has, with tag
  \<open>v\<close>, payload \<open>args\<close> and the prototype of \<open>T\<close>, and changes nothing else. A second call
  with the same arguments returns another address; the two objects have the same tag,
  payload and prototype, so \<^verbatim>\<open>cases\<close> and property lookup do the same on both.
\<close>

theorem constructor_makes_new_value:
  assumes "createSumType vs w0 = (T, w1)" and "own T v = Some (Fn c)"
  shows "let x = \<lparr>vname = v, vargs = args, vdef = ident T\<rparr>;
             a = length (variants w);
             w' = w\<lparr>variants := variants w @ [x]\<rparr>;
             b = length (variants w');
             w'' = w'\<lparr>variants := variants w' @ [x]\<rparr>
         in construct T v args w = (Inr a, w')
            \<and> construct T v args w' = (Inr b, w'')
            \<and> a \<noteq> b
            \<and> variants w'' ! a = x \<and> variants w'' ! b = x
            \<and> cases call (variants w'' ! a) opts s = cases call (variants w'' ! b) opts s
            \<and> member w'' (variants w'' ! a) k = member w'' (variants w'' ! b) k"
proof -
  from bound_constructor [OF assms] obtain i where "own T v = Some (Fn (CtorFn (ident T) i v))"
    using assms(2) by auto
  then have "construct T v args u =
      (Inr (length (variants u)),
       u\<lparr>variants := variants u @ [\<lparr>vname = v, vargs = args, vdef = ident T\<rparr>]\<rparr>)" for u
    by (rule construct_bound)
  then show ?thesis
    by (simp add: Let_def nth_append)
qed

text \<open>\<^verbatim>\<open>Tree.Leaf(3)\<close>, twice: the objects at addresses 0 and 1.\<close>

theorem constructor_makes_new_value_witness:
  "createSumType [''Leaf'', ''Inner''] empty_world = (Tree, tree_world)
   \<and> own Tree ''Leaf'' = Some (Fn (CtorFn 0 0 ''Leaf''))
   \<and> construct Tree ''Leaf'' [Num 3] tree_world = (Inr 0, tree_world\<lparr>variants := [leaf3]\<rparr>)
   \<and> construct Tree ''Leaf'' [Num 3] (tree_world\<lparr>variants := [leaf3]\<rparr>)
        = (Inr 1, tree_world\<lparr>variants := [leaf3, leaf3]\<rparr>)"
proof -
  have d: "createSumType [''Leaf'', ''Inner''] empty_world = (Tree, tree_world)"
    by (simp add: Tree_def tree_world_def)
  have b: "own Tree ''Leaf'' = Some (Fn (CtorFn 0 0 ''Leaf''))"
    by (simp add: Tree_def createSumType_def Let_def assign_def readonly_def empty_world_def)
  have i: "ident Tree = 0" and v: "variants tree_world = []"
    by (simp_all add: Tree_def tree_world_def createSumType_def Let_def empty_world_def)
  show ?thesis
    using d b constructor_makes_new_value [OF d b, of "[Num 3]" tree_world]
    by (simp add: Let_def i v leaf3_def)
qed

subsection \<open>Tag fidelity\<close>

text \<open>
  C2 says that for every variant name \<open>v\<close> given to \<^verbatim>\<open>createSumType\<close> and every argument
  list, \<^verbatim>\<open>createSumType(..., v, ...).v(...args).cases({[v]: (...a) => a})\<close> returns the
  arguments. The code does not do so for the name \<^verbatim>\<open>name\<close>: the property \<^verbatim>\<open>name\<close> of the
  function \<^verbatim>\<open>SumType\<close> is not writable, the assignment in \<^verbatim>\<open>forEach\<close> leaves it as it
  is, and \<^verbatim>\<open>createSumType('name').name\<close> is the string \<^verbatim>\<open>SumType\<close>, whose call is a
  \<^verbatim>\<open>TypeError\<close>; no value is made.
\<close>

theorem name_is_not_bound:
  "own (fst (createSumType [''name''] empty_world)) ''name'' = Some (Str ''SumType'')
   \<and> construct (fst (createSumType [''name''] empty_world)) ''name'' [Num 1]
        (snd (createSumType [''name''] empty_world))
      = (Inl TypeError, snd (createSumType [''name''] empty_world))"
  by (simp add: construct_def createSumType_def Let_def assign_def readonly_def function_props_def)

text \<open>
  For the names that are bound, the round trip is as the claim says: the constructor
  makes the value, and \<^verbatim>\<open>cases\<close> with a handler \<^verbatim>\<open>(...a) => a\<close> under the name returns
  the array of the arguments.
\<close>

lemma tag_fidelity_of_writable_names:
  assumes "createSumType vs w0 = (T, w1)" and "v \<in> set vs" and "\<not> readonly v"
    and collect: "\<And>this a s. call h this a s = Some (Inr (Arr a), s)"
  shows "\<exists>x w'. construct T v args w = (Inr x, w') \<and> x < length (variants w')
           \<and> cases call (variants w' ! x) ([v \<mapsto> Fn h] # protos) w' = Some (Inr (Arr args), w')"
proof -
  from writable_name_bound [OF assms(1-3)] obtain i
    where "own T v = Some (Fn (CtorFn (ident T) i v))" ..
  then have "construct T v args w =
      (Inr (length (variants w)),
       w\<lparr>variants := variants w @ [\<lparr>vname = v, vargs = args, vdef = ident T\<rparr>]\<rparr>)"
    by (rule construct_bound)
  moreover have "cases call \<lparr>vname = v, vargs = args, vdef = ident T\<rparr> ([v \<mapsto> Fn h] # protos) u
      = Some (Inr (Arr args), u)" for u
    by (simp add: cases_def invoke_def collect)
  ultimately show ?thesis
    by simp
qed

section \<open>The extension surface\<close>

lemma variants_attach: "variants (attach d n f w) = variants w"
  by (simp add: attach_def)

lemma objproto_attach: "objproto (attach d n f w) = objproto w"
  by (simp add: attach_def)

lemma length_surfaces_attach: "length (surfaces (attach d n f w)) = length (surfaces w)"
  by (simp add: attach_def)

lemma surfaces_construct: "construct T v args w = (r, w') \<Longrightarrow> surfaces w' = surfaces w"
  by (auto simp: construct_def new_Variant_def split: option.splits jsval.splits fn.splits)

lemma surface_attach:
  "surface (attach d n f w) e =
     (if e = d \<and> d < length (surfaces w) then (surface w d)(n \<mapsto> f) else surface w e)"
  by (simp add: attach_def surface_def)

lemma member_attach_other: "vdef x \<noteq> d \<Longrightarrow> member (attach d n f w) x k = member w x k"
  by (simp add: member_def chain_def surface_attach objproto_attach)

lemma member_attach_same:
  assumes "d < length (surfaces w)" and "vdef x = d"
    and "n \<notin> {''_name'', ''_args'', ''cases''}"
  shows "member (attach d n f w) x n = f"
  using assms
  by (simp add: member_def chain_def surface_attach own_props_def variant_prototype_def)

subsection \<open>Isolation\<close>

text \<open>
  C5. Let \<open>A\<close> and \<open>B\<close> be made by two calls of \<^verbatim>\<open>createSumType\<close>, \<open>B\<close> in any world
  later than the one \<open>A\<close> was made in (no surface is ever removed), with any variant
  names. Then \<open>A\<close> and \<open>B\<close> have different extension surfaces, and attaching anything to
  the surface of one, in any world, changes the lookup of no property on a value of the
  other, and changes no value.
\<close>

theorem extension_isolation:
  assumes "createSumType vsA w0 = (A, w1)"
    and "length (surfaces w1) \<le> length (surfaces w2)"
    and "createSumType vsB w2 = (B, w3)"
  shows "ident A \<noteq> ident B
         \<and> (vdef x = ident B \<longrightarrow> member (attach (ident A) n f w) x k = member w x k)
         \<and> (vdef x = ident A \<longrightarrow> member (attach (ident B) n f w) x k = member w x k)
         \<and> variants (attach (ident A) n f w) = variants w
         \<and> variants (attach (ident B) n f w) = variants w"
proof -
  have "ident A < length (surfaces w1)"
    using createSumType_result(1,3) [OF assms(1)] by simp
  moreover have "ident B = length (surfaces w2)"
    using createSumType_result(1) [OF assms(3)] .
  ultimately have "ident A \<noteq> ident B"
    using assms(2) by simp
  then show ?thesis
    by (simp add: member_attach_other variants_attach)
qed

text \<open>
  \<open>Tree\<close> and \<open>Shape\<close> both have a variant \<^verbatim>\<open>Leaf\<close>. After
  \<^verbatim>\<open>Tree.prototype.mapLeaf = f\<close>, a \<^verbatim>\<open>Shape.Leaf(3)\<close> has no \<^verbatim>\<open>mapLeaf\<close>, and a
  \<^verbatim>\<open>Tree.Leaf(3)\<close> has.
\<close>

theorem extension_isolation_witness:
  "createSumType [''Leaf'', ''Inner''] empty_world = (Tree, tree_world)
   \<and> length (surfaces tree_world) \<le> length (surfaces tree_world)
   \<and> createSumType [''Leaf'', ''Circle''] tree_world = (Shape, shape_world)
   \<and> construct Shape ''Leaf'' [Num 3] shape_world
        = (Inr 0, shape_world\<lparr>variants := [\<lparr>vname = ''Leaf'', vargs = [Num 3], vdef = ident Shape\<rparr>]\<rparr>)
   \<and> member (attach (ident Tree) ''mapLeaf'' (Fn (User 5))
               (shape_world\<lparr>variants := [\<lparr>vname = ''Leaf'', vargs = [Num 3], vdef = ident Shape\<rparr>]\<rparr>))
        \<lparr>vname = ''Leaf'', vargs = [Num 3], vdef = ident Shape\<rparr> ''mapLeaf'' = Undefined
   \<and> member (attach (ident Tree) ''mapLeaf'' (Fn (User 5))
               (shape_world\<lparr>variants := [\<lparr>vname = ''Leaf'', vargs = [Num 3], vdef = ident Shape\<rparr>]\<rparr>))
        leaf3 ''mapLeaf'' = Fn (User 5)"
proof -
  let ?x = "\<lparr>vname = ''Leaf'', vargs = [Num 3], vdef = ident Shape\<rparr>"
  let ?w = "shape_world\<lparr>variants := [?x]\<rparr>"
  have a: "createSumType [''Leaf'', ''Inner''] empty_world = (Tree, tree_world)"
    by (simp add: Tree_def tree_world_def)
  have b: "createSumType [''Leaf'', ''Circle''] tree_world = (Shape, shape_world)"
    by (simp add: Shape_def shape_world_def)
  have c: "construct Shape ''Leaf'' [Num 3] shape_world = (Inr 0, ?w)"
    by (simp add: construct_def new_Variant_def Shape_def shape_world_def tree_world_def
        createSumType_def Let_def assign_def readonly_def empty_world_def)
  have before: "member ?w ?x ''mapLeaf'' = Undefined"
    by (simp add: member_def chain_def own_props_def variant_prototype_def surface_def
        Shape_def shape_world_def tree_world_def createSumType_def Let_def empty_world_def
        prototype_props_def object_prototype_def)
  have seen: "member (attach (ident Tree) ''mapLeaf'' (Fn (User 5)) ?w) leaf3 ''mapLeaf'' = Fn (User 5)"
    by (simp add: member_def chain_def own_props_def variant_prototype_def surface_def attach_def
        Tree_def shape_world_def tree_world_def createSumType_def Let_def empty_world_def
        leaf3_def)
  from extension_isolation [OF a order_refl b, of ?x "''mapLeaf''" "Fn (User 5)" ?w "''mapLeaf''"]
  have "member (attach (ident Tree) ''mapLeaf'' (Fn (User 5)) ?w) ?x ''mapLeaf'' = member ?w ?x ''mapLeaf''"
    by simp
  with a b c before seen show ?thesis
    by simp
qed

subsection \<open>Retroactive visibility\<close>

text \<open>
  C6, as the code has it. Let \<open>x\<close> be a value, at address \<open>a\<close> of the world, made by a
  constructor of the definition \<open>d\<close>. Attaching \<open>f\<close> under a name \<open>n\<close> to the extension
  surface of \<open>d\<close> leaves \<open>x\<close> as it is, and afterwards the lookup of \<open>n\<close> on \<open>x\<close> gives
  \<open>f\<close>, unless \<open>n\<close> is one of \<^verbatim>\<open>_name\<close>, \<^verbatim>\<open>_args\<close> and \<^verbatim>\<open>cases\<close>, which the value and
  \<^verbatim>\<open>Variant.prototype\<close> have themselves, before the surface in the chain.
\<close>

theorem retroactive_visibility:
  assumes "d < length (surfaces w)"
    and "a < length (variants w)" and "vdef (variants w ! a) = d"
    and "n \<notin> {''_name'', ''_args'', ''cases''}"
  shows "variants (attach d n f w) ! a = variants w ! a
         \<and> member (attach d n f w) (variants (attach d n f w) ! a) n = f"
  using assms by (simp add: variants_attach member_attach_same)

text \<open>
  The test: \<^verbatim>\<open>Tree.prototype.mapLeaf = f\<close> after \<^verbatim>\<open>Tree.Leaf(3)\<close> was made; the value had
  no \<^verbatim>\<open>mapLeaf\<close> before and has it after.
\<close>

theorem retroactive_visibility_witness:
  "createSumType [''Leaf'', ''Inner''] empty_world = (Tree, tree_world)
   \<and> construct Tree ''Leaf'' [Num 3] tree_world = (Inr 0, tree_world\<lparr>variants := [leaf3]\<rparr>)
   \<and> ident Tree < length (surfaces (tree_world\<lparr>variants := [leaf3]\<rparr>))
   \<and> 0 < length (variants (tree_world\<lparr>variants := [leaf3]\<rparr>))
   \<and> vdef (variants (tree_world\<lparr>variants := [leaf3]\<rparr>) ! 0) = ident Tree
   \<and> ''mapLeaf'' \<notin> {''_name'', ''_args'', ''cases''}
   \<and> member (tree_world\<lparr>variants := [leaf3]\<rparr>) leaf3 ''mapLeaf'' = Undefined
   \<and> member (attach (ident Tree) ''mapLeaf'' (Fn (User 5)) (tree_world\<lparr>variants := [leaf3]\<rparr>))
        (variants (attach (ident Tree) ''mapLeaf'' (Fn (User 5)) (tree_world\<lparr>variants := [leaf3]\<rparr>)) ! 0)
        ''mapLeaf'' = Fn (User 5)"
proof -
  let ?w = "tree_world\<lparr>variants := [leaf3]\<rparr>"
  have t: "createSumType [''Leaf'', ''Inner''] empty_world = (Tree, tree_world)"
    by (simp add: Tree_def tree_world_def)
  have c: "construct Tree ''Leaf'' [Num 3] tree_world = (Inr 0, ?w)"
    by (simp add: construct_def new_Variant_def Tree_def tree_world_def
        createSumType_def Let_def assign_def readonly_def empty_world_def leaf3_def)
  have d: "ident Tree < length (surfaces ?w)"
    by (simp add: Tree_def tree_world_def createSumType_def Let_def empty_world_def)
  have a: "0 < length (variants ?w)"
    by simp
  have v: "vdef (variants ?w ! 0) = ident Tree"
    by (simp add: leaf3_def Tree_def createSumType_def Let_def empty_world_def)
  have n: "''mapLeaf'' \<notin> {''_name'', ''_args'', ''cases''}"
    by simp
  have before: "member ?w leaf3 ''mapLeaf'' = Undefined"
    by (simp add: member_def chain_def own_props_def variant_prototype_def surface_def
        tree_world_def createSumType_def Let_def empty_world_def leaf3_def
        prototype_props_def object_prototype_def)
  show ?thesis
    using t c d a v n before retroactive_visibility [OF d a v n, of "Fn (User 5)"]
    by (simp add: variants_attach)
qed

text \<open>
  For every name, the claim fails: after \<^verbatim>\<open>Tree.prototype.cases = f\<close>, the \<^verbatim>\<open>cases\<close> of
  the value is still the method of the library.
\<close>

theorem retroactive_visibility_counterexample:
  "ident Tree < length (surfaces (tree_world\<lparr>variants := [leaf3]\<rparr>))
   \<and> vdef (variants (tree_world\<lparr>variants := [leaf3]\<rparr>) ! 0) = ident Tree
   \<and> member (attach (ident Tree) ''cases'' (Fn (User 5)) (tree_world\<lparr>variants := [leaf3]\<rparr>))
        (variants (attach (ident Tree) ''cases'' (Fn (User 5)) (tree_world\<lparr>variants := [leaf3]\<rparr>)) ! 0)
        ''cases'' = Fn (CasesFn 0)
   \<and> Fn (CasesFn 0) \<noteq> Fn (User 5)"
  by (simp add: member_def chain_def own_props_def variant_prototype_def attach_def
      Tree_def tree_world_def createSumType_def Let_def empty_world_def leaf3_def)

end
